theory Spec2Isabelle
  imports Main "HOL-Library.Word" "HOL-Library.Char_ord"
begin

section \<open>The CHDF5 shim: accessor functions for the HDF5 macro constants\<close>

text \<open>
  \<^verbatim>\<open>Sources/CHDF5/shim.h\<close> declares 21 functions of one shape,
  \<^verbatim>\<open>static inline T hdf5_get_x(void) { return H5_MACRO; }\<close>
  under six comment headings. The header \<^verbatim>\<open>hdf5.h\<close> that defines the macros
  belongs to the HDF5 library, not to this repository: what a macro expands to is a
  parameter of the model.
\<close>

subsection \<open>C types and values\<close>

text \<open>The three return types the shim uses.\<close>

datatype ctype = C_unsigned_int | C_H5S_class_t | C_hid_t

text \<open>
  A value carries its C type: \<^verbatim>\<open>unsigned int\<close> is 32 bits, an enumeration is
  represented as \<^verbatim>\<open>int\<close> (32 bits, two's complement), \<^verbatim>\<open>hid_t\<close> is
  a signed 64-bit integer.
\<close>

datatype cval = UInt "32 word" | Cls "32 word" | Hid "64 word"

fun ctype_of :: "cval \<Rightarrow> ctype" where
  "ctype_of (UInt w) = C_unsigned_int"
| "ctype_of (Cls w) = C_H5S_class_t"
| "ctype_of (Hid w) = C_hid_t"

text \<open>The integer a value denotes: unsigned for \<^verbatim>\<open>unsigned int\<close>, signed otherwise.\<close>

fun int_of :: "cval \<Rightarrow> int" where
  "int_of (UInt w) = uint w"
| "int_of (Cls w) = sint w"
| "int_of (Hid w) = sint w"

text \<open>
  \<^verbatim>\<open>return e;\<close> converts the value of \<open>e\<close> to the function's return type, as if by
  assignment. Between integer types that is reduction modulo the width of the target
  (truncation of a wider value, sign or zero extension of a narrower one).
\<close>

fun cast :: "ctype \<Rightarrow> cval \<Rightarrow> cval" where
  "cast C_unsigned_int v = UInt (word_of_int (int_of v))"
| "cast C_H5S_class_t v = Cls (word_of_int (int_of v))"
| "cast C_hid_t v = Hid (word_of_int (int_of v))"

subsection \<open>The macros the shim refers to\<close>

datatype macro =
    H5F_ACC_RDONLY | H5F_ACC_RDWR | H5F_ACC_TRUNC | H5F_ACC_EXCL
  | H5S_SCALAR | H5S_SIMPLE | H5S_NULL
  | H5P_DEFAULT
  | H5S_ALL
  | H5T_NATIVE_INT8 | H5T_NATIVE_INT16 | H5T_NATIVE_INT32 | H5T_NATIVE_INT64
  | H5T_NATIVE_UINT8 | H5T_NATIVE_UINT16 | H5T_NATIVE_UINT32 | H5T_NATIVE_UINT64
  | H5T_NATIVE_FLOAT | H5T_NATIVE_DOUBLE | H5T_NATIVE_CHAR
  | H5T_C_S1

text \<open>The identifier of each macro, as the shim spells it.\<close>

fun macro_name :: "macro \<Rightarrow> string" where
  "macro_name H5F_ACC_RDONLY = ''H5F_ACC_RDONLY''"
| "macro_name H5F_ACC_RDWR = ''H5F_ACC_RDWR''"
| "macro_name H5F_ACC_TRUNC = ''H5F_ACC_TRUNC''"
| "macro_name H5F_ACC_EXCL = ''H5F_ACC_EXCL''"
| "macro_name H5S_SCALAR = ''H5S_SCALAR''"
| "macro_name H5S_SIMPLE = ''H5S_SIMPLE''"
| "macro_name H5S_NULL = ''H5S_NULL''"
| "macro_name H5P_DEFAULT = ''H5P_DEFAULT''"
| "macro_name H5S_ALL = ''H5S_ALL''"
| "macro_name H5T_NATIVE_INT8 = ''H5T_NATIVE_INT8''"
| "macro_name H5T_NATIVE_INT16 = ''H5T_NATIVE_INT16''"
| "macro_name H5T_NATIVE_INT32 = ''H5T_NATIVE_INT32''"
| "macro_name H5T_NATIVE_INT64 = ''H5T_NATIVE_INT64''"
| "macro_name H5T_NATIVE_UINT8 = ''H5T_NATIVE_UINT8''"
| "macro_name H5T_NATIVE_UINT16 = ''H5T_NATIVE_UINT16''"
| "macro_name H5T_NATIVE_UINT32 = ''H5T_NATIVE_UINT32''"
| "macro_name H5T_NATIVE_UINT64 = ''H5T_NATIVE_UINT64''"
| "macro_name H5T_NATIVE_FLOAT = ''H5T_NATIVE_FLOAT''"
| "macro_name H5T_NATIVE_DOUBLE = ''H5T_NATIVE_DOUBLE''"
| "macro_name H5T_NATIVE_CHAR = ''H5T_NATIVE_CHAR''"
| "macro_name H5T_C_S1 = ''H5T_C_S1''"

text \<open>
  The shim's own comment says that the HDF5 macros contain runtime initialization, so a
  macro is not a literal: evaluating its expansion in a state of the process yields a
  value and the state after it. The library is the assignment of such an expansion to
  every macro; \<open>'s\<close> is the process state.
\<close>

type_synonym 's hdf5 = "macro \<Rightarrow> 's \<Rightarrow> cval \<times> 's"

text \<open>
  Modelled from the spec: the native C type of each macro's value, which
  \<^verbatim>\<open>hdf5.h\<close> (not part of this repository) fixes. The spec's table of categories
  gives an unsigned integer bitmask for the file-access flags, the enumerated tag for the
  dataspace classes, and the opaque identifier handle for everything else.
\<close>

fun native_type :: "macro \<Rightarrow> ctype" where
  "native_type H5F_ACC_RDONLY = C_unsigned_int"
| "native_type H5F_ACC_RDWR = C_unsigned_int"
| "native_type H5F_ACC_TRUNC = C_unsigned_int"
| "native_type H5F_ACC_EXCL = C_unsigned_int"
| "native_type H5S_SCALAR = C_H5S_class_t"
| "native_type H5S_SIMPLE = C_H5S_class_t"
| "native_type H5S_NULL = C_H5S_class_t"
| "native_type m = C_hid_t"

subsection \<open>The accessor declarations\<close>

text \<open>The comment headings of the file, in its order.\<close>

datatype category =
    File_access_flags | Dataspace_types | Property_list_identifiers
  | Dataspace_selection | Native_type_identifiers | String_type_helper

text \<open>The only statement form in the file: \<^verbatim>\<open>return M;\<close> for a macro \<open>M\<close>.\<close>

datatype cstmt = Return macro

text \<open>
  One declaration \<^verbatim>\<open>static inline T name(params) { body }\<close>, with the heading it
  stands under.
\<close>

record accessor =
  acc_category :: category
  acc_ret :: ctype
  acc_name :: string
  acc_params :: "(ctype \<times> string) list"
  acc_body :: "cstmt list"

definition hdf5_get_f_acc_rdonly :: accessor where
  "hdf5_get_f_acc_rdonly = \<lparr>acc_category = File_access_flags, acc_ret = C_unsigned_int,
     acc_name = ''hdf5_get_f_acc_rdonly'', acc_params = [], acc_body = [Return H5F_ACC_RDONLY]\<rparr>"

definition hdf5_get_f_acc_rdwr :: accessor where
  "hdf5_get_f_acc_rdwr = \<lparr>acc_category = File_access_flags, acc_ret = C_unsigned_int,
     acc_name = ''hdf5_get_f_acc_rdwr'', acc_params = [], acc_body = [Return H5F_ACC_RDWR]\<rparr>"

definition hdf5_get_f_acc_trunc :: accessor where
  "hdf5_get_f_acc_trunc = \<lparr>acc_category = File_access_flags, acc_ret = C_unsigned_int,
     acc_name = ''hdf5_get_f_acc_trunc'', acc_params = [], acc_body = [Return H5F_ACC_TRUNC]\<rparr>"

definition hdf5_get_f_acc_excl :: accessor where
  "hdf5_get_f_acc_excl = \<lparr>acc_category = File_access_flags, acc_ret = C_unsigned_int,
     acc_name = ''hdf5_get_f_acc_excl'', acc_params = [], acc_body = [Return H5F_ACC_EXCL]\<rparr>"

definition hdf5_get_s_scalar :: accessor where
  "hdf5_get_s_scalar = \<lparr>acc_category = Dataspace_types, acc_ret = C_H5S_class_t,
     acc_name = ''hdf5_get_s_scalar'', acc_params = [], acc_body = [Return H5S_SCALAR]\<rparr>"

definition hdf5_get_s_simple :: accessor where
  "hdf5_get_s_simple = \<lparr>acc_category = Dataspace_types, acc_ret = C_H5S_class_t,
     acc_name = ''hdf5_get_s_simple'', acc_params = [], acc_body = [Return H5S_SIMPLE]\<rparr>"

definition hdf5_get_s_null :: accessor where
  "hdf5_get_s_null = \<lparr>acc_category = Dataspace_types, acc_ret = C_H5S_class_t,
     acc_name = ''hdf5_get_s_null'', acc_params = [], acc_body = [Return H5S_NULL]\<rparr>"

definition hdf5_get_p_default :: accessor where
  "hdf5_get_p_default = \<lparr>acc_category = Property_list_identifiers, acc_ret = C_hid_t,
     acc_name = ''hdf5_get_p_default'', acc_params = [], acc_body = [Return H5P_DEFAULT]\<rparr>"

definition hdf5_get_s_all :: accessor where
  "hdf5_get_s_all = \<lparr>acc_category = Dataspace_selection, acc_ret = C_hid_t,
     acc_name = ''hdf5_get_s_all'', acc_params = [], acc_body = [Return H5S_ALL]\<rparr>"

definition hdf5_get_native_int8 :: accessor where
  "hdf5_get_native_int8 = \<lparr>acc_category = Native_type_identifiers, acc_ret = C_hid_t,
     acc_name = ''hdf5_get_native_int8'', acc_params = [], acc_body = [Return H5T_NATIVE_INT8]\<rparr>"

definition hdf5_get_native_int16 :: accessor where
  "hdf5_get_native_int16 = \<lparr>acc_category = Native_type_identifiers, acc_ret = C_hid_t,
     acc_name = ''hdf5_get_native_int16'', acc_params = [], acc_body = [Return H5T_NATIVE_INT16]\<rparr>"

definition hdf5_get_native_int32 :: accessor where
  "hdf5_get_native_int32 = \<lparr>acc_category = Native_type_identifiers, acc_ret = C_hid_t,
     acc_name = ''hdf5_get_native_int32'', acc_params = [], acc_body = [Return H5T_NATIVE_INT32]\<rparr>"

definition hdf5_get_native_int64 :: accessor where
  "hdf5_get_native_int64 = \<lparr>acc_category = Native_type_identifiers, acc_ret = C_hid_t,
     acc_name = ''hdf5_get_native_int64'', acc_params = [], acc_body = [Return H5T_NATIVE_INT64]\<rparr>"

definition hdf5_get_native_uint8 :: accessor where
  "hdf5_get_native_uint8 = \<lparr>acc_category = Native_type_identifiers, acc_ret = C_hid_t,
     acc_name = ''hdf5_get_native_uint8'', acc_params = [], acc_body = [Return H5T_NATIVE_UINT8]\<rparr>"

definition hdf5_get_native_uint16 :: accessor where
  "hdf5_get_native_uint16 = \<lparr>acc_category = Native_type_identifiers, acc_ret = C_hid_t,
     acc_name = ''hdf5_get_native_uint16'', acc_params = [], acc_body = [Return H5T_NATIVE_UINT16]\<rparr>"

definition hdf5_get_native_uint32 :: accessor where
  "hdf5_get_native_uint32 = \<lparr>acc_category = Native_type_identifiers, acc_ret = C_hid_t,
     acc_name = ''hdf5_get_native_uint32'', acc_params = [], acc_body = [Return H5T_NATIVE_UINT32]\<rparr>"

definition hdf5_get_native_uint64 :: accessor where
  "hdf5_get_native_uint64 = \<lparr>acc_category = Native_type_identifiers, acc_ret = C_hid_t,
     acc_name = ''hdf5_get_native_uint64'', acc_params = [], acc_body = [Return H5T_NATIVE_UINT64]\<rparr>"

definition hdf5_get_native_float :: accessor where
  "hdf5_get_native_float = \<lparr>acc_category = Native_type_identifiers, acc_ret = C_hid_t,
     acc_name = ''hdf5_get_native_float'', acc_params = [], acc_body = [Return H5T_NATIVE_FLOAT]\<rparr>"

definition hdf5_get_native_double :: accessor where
  "hdf5_get_native_double = \<lparr>acc_category = Native_type_identifiers, acc_ret = C_hid_t,
     acc_name = ''hdf5_get_native_double'', acc_params = [], acc_body = [Return H5T_NATIVE_DOUBLE]\<rparr>"

definition hdf5_get_native_char :: accessor where
  "hdf5_get_native_char = \<lparr>acc_category = Native_type_identifiers, acc_ret = C_hid_t,
     acc_name = ''hdf5_get_native_char'', acc_params = [], acc_body = [Return H5T_NATIVE_CHAR]\<rparr>"

definition hdf5_get_c_s1 :: accessor where
  "hdf5_get_c_s1 = \<lparr>acc_category = String_type_helper, acc_ret = C_hid_t,
     acc_name = ''hdf5_get_c_s1'', acc_params = [], acc_body = [Return H5T_C_S1]\<rparr>"

text \<open>The file: its declarations in order.\<close>

definition shim :: "accessor list" where
  "shim =
    [hdf5_get_f_acc_rdonly, hdf5_get_f_acc_rdwr, hdf5_get_f_acc_trunc, hdf5_get_f_acc_excl,
     hdf5_get_s_scalar, hdf5_get_s_simple, hdf5_get_s_null,
     hdf5_get_p_default,
     hdf5_get_s_all,
     hdf5_get_native_int8, hdf5_get_native_int16, hdf5_get_native_int32, hdf5_get_native_int64,
     hdf5_get_native_uint8, hdf5_get_native_uint16, hdf5_get_native_uint32,
     hdf5_get_native_uint64, hdf5_get_native_float, hdf5_get_native_double,
     hdf5_get_native_char,
     hdf5_get_c_s1]"

subsection \<open>Calling an accessor\<close>

text \<open>
  Running a body in a process state. A \<^verbatim>\<open>return M;\<close> evaluates the expansion of
  \<open>M\<close>, which yields a value and the state it leaves, converts the value to the return
  type and ends the call; statements after it are not reached. A body of a non-void
  function that ends without a \<^verbatim>\<open>return\<close> yields no value: \<open>None\<close>.
\<close>

fun exec :: "'s hdf5 \<Rightarrow> ctype \<Rightarrow> cstmt list \<Rightarrow> 's \<Rightarrow> (cval \<times> 's) option" where
  "exec lib T [] s = None"
| "exec lib T (Return m # rest) s = (case lib m s of (v, s') \<Rightarrow> Some (cast T v, s'))"

text \<open>The call \<^verbatim>\<open>f()\<close> of a declared accessor.\<close>

definition call :: "'s hdf5 \<Rightarrow> accessor \<Rightarrow> 's \<Rightarrow> (cval \<times> 's) option" where
  "call lib a s = exec lib (acc_ret a) (acc_body a) s"

text \<open>The macros a body returns, in order.\<close>

fun returned :: "cstmt list \<Rightarrow> macro list" where
  "returned [] = []"
| "returned (Return m # rest) = m # returned rest"

text \<open>The macro an accessor wraps: the one its body returns first, if any.\<close>

definition acc_wraps :: "accessor \<Rightarrow> macro option" where
  "acc_wraps a = (case acc_body a of [] \<Rightarrow> None | Return m # rest \<Rightarrow> Some m)"

text \<open>The macros wrapped under a heading, in the order of the file.\<close>

definition wrapped_in :: "category \<Rightarrow> macro list" where
  "wrapped_in c = concat (map (\<lambda>a. returned (acc_body a)) (filter (\<lambda>a. acc_category a = c) shim))"

subsection \<open>Names\<close>

definition to_lower :: "char \<Rightarrow> char" where
  "to_lower c = (if CHR ''A'' \<le> c \<and> c \<le> CHR ''Z'' then char_of (of_char c + (32::nat)) else c)"

text \<open>
  The part of a macro's identifier that an accessor's name repeats: the identifier
  without its leading \<^verbatim>\<open>H5\<close>, and for the datatype macros without \<^verbatim>\<open>H5T_\<close>.
\<close>

definition constant_part :: "category \<Rightarrow> macro \<Rightarrow> string" where
  "constant_part c m =
     drop (if c = Native_type_identifiers \<or> c = String_type_helper then 4 else 2) (macro_name m)"

text \<open>
  A name of the form \<open>pre\<close>\<^verbatim>\<open>get_<category>_<constant>\<close>: after \<open>pre\<close> and
  \<^verbatim>\<open>get_\<close> comes a non-empty category without underscore, an underscore and a
  non-empty constant. The spec words the convention with no prefix (\<open>pre = []\<close>).
\<close>

definition get_category_constant :: "string \<Rightarrow> string \<Rightarrow> bool" where
  "get_category_constant pre n \<longleftrightarrow>
     take (length pre + 4) n = pre @ ''get_'' \<and>
     takeWhile (\<lambda>c. c \<noteq> CHR ''_'') (drop (length pre + 4) n) \<noteq> [] \<and>
     1 < length (dropWhile (\<lambda>c. c \<noteq> CHR ''_'') (drop (length pre + 4) n))"

definition spec_naming_convention :: "string \<Rightarrow> bool" where
  "spec_naming_convention n = get_category_constant [] n"

subsection \<open>An HDF5 library to run the shim against\<close>

text \<open>
  A small library in the form the HDF5 public headers give their macros, for running the
  accessors on concrete states. The flags, the dataspace classes, \<^verbatim>\<open>H5P_DEFAULT\<close>
  and \<^verbatim>\<open>H5S_ALL\<close> are literals. A datatype macro is
  \<^verbatim>\<open>(H5OPEN H5T_..._g)\<close> with \<^verbatim>\<open>#define H5OPEN H5open(),\<close>: it first
  initializes the library if that has not happened, then reads a global variable that
  the initialization sets. The state holds the initialization flag and those globals.
\<close>

record h5_state =
  H5_libinit_g :: bool
  H5T_g :: "macro \<Rightarrow> 64 word"

text \<open>The identifiers that initialization registers for the datatypes (example values).\<close>

fun H5T_registered :: "macro \<Rightarrow> 64 word" where
  "H5T_registered H5T_NATIVE_INT8 = 0x0300000000000020"
| "H5T_registered H5T_NATIVE_INT16 = 0x0300000000000021"
| "H5T_registered H5T_NATIVE_INT32 = 0x0300000000000022"
| "H5T_registered H5T_NATIVE_INT64 = 0x0300000000000023"
| "H5T_registered H5T_NATIVE_UINT8 = 0x0300000000000024"
| "H5T_registered H5T_NATIVE_UINT16 = 0x0300000000000025"
| "H5T_registered H5T_NATIVE_UINT32 = 0x0300000000000026"
| "H5T_registered H5T_NATIVE_UINT64 = 0x0300000000000027"
| "H5T_registered H5T_NATIVE_FLOAT = 0x0300000000000028"
| "H5T_registered H5T_NATIVE_DOUBLE = 0x0300000000000029"
| "H5T_registered H5T_NATIVE_CHAR = 0x030000000000002A"
| "H5T_registered H5T_C_S1 = 0x030000000000002B"
| "H5T_registered m = - 1"

definition H5open :: "h5_state \<Rightarrow> h5_state" where
  "H5open s = (if H5_libinit_g s then s else \<lparr>H5_libinit_g = True, H5T_g = H5T_registered\<rparr>)"

fun H5_example :: "h5_state hdf5" where
  "H5_example H5F_ACC_RDONLY s = (UInt 0, s)"
| "H5_example H5F_ACC_RDWR s = (UInt 1, s)"
| "H5_example H5F_ACC_TRUNC s = (UInt 2, s)"
| "H5_example H5F_ACC_EXCL s = (UInt 4, s)"
| "H5_example H5S_SCALAR s = (Cls 0, s)"
| "H5_example H5S_SIMPLE s = (Cls 1, s)"
| "H5_example H5S_NULL s = (Cls 2, s)"
| "H5_example H5P_DEFAULT s = (Hid 0, s)"
| "H5_example H5S_ALL s = (Hid 0, s)"
| "H5_example m s = (Hid (H5T_g (H5open s) m), H5open s)"

text \<open>The process before anything has touched the library.\<close>

definition h5_fresh :: h5_state where
  "h5_fresh = \<lparr>H5_libinit_g = False, H5T_g = (\<lambda>m. - 1)\<rparr>"

text \<open>
  The identifier that HDF5 uses for "no valid object": the value of the datatype globals
  before a successful initialization has set them, and the library's error value for
  identifiers.
\<close>

definition H5I_INVALID_HID :: cval where
  "H5I_INVALID_HID = Hid (- 1)"

text \<open>
  The same header in a process where the initialization of the library fails:
  \<^verbatim>\<open>H5open()\<close> returns a negative status and registers nothing, the comma
  operator of \<^verbatim>\<open>(H5OPEN H5T_..._g)\<close> discards that status, and the macro
  yields the global as it stands.
\<close>

fun H5_init_fails :: "h5_state hdf5" where
  "H5_init_fails H5F_ACC_RDONLY s = (UInt 0, s)"
| "H5_init_fails H5F_ACC_RDWR s = (UInt 1, s)"
| "H5_init_fails H5F_ACC_TRUNC s = (UInt 2, s)"
| "H5_init_fails H5F_ACC_EXCL s = (UInt 4, s)"
| "H5_init_fails H5S_SCALAR s = (Cls 0, s)"
| "H5_init_fails H5S_SIMPLE s = (Cls 1, s)"
| "H5_init_fails H5S_NULL s = (Cls 2, s)"
| "H5_init_fails H5P_DEFAULT s = (Hid 0, s)"
| "H5_init_fails H5S_ALL s = (Hid 0, s)"
| "H5_init_fails m s = (Hid (H5T_g s m), s)"

subsection \<open>Runs of a process\<close>

text \<open>
  A process that calls accessors one after the other: the state after the calls of
  \<open>bs\<close> in order, each call starting in the state the previous one left.
\<close>

fun run :: "'s hdf5 \<Rightarrow> accessor list \<Rightarrow> 's \<Rightarrow> 's option" where
  "run lib [] s = Some s"
| "run lib (b # bs) s = (case call lib b s of None \<Rightarrow> None | Some (v, s') \<Rightarrow> run lib bs s')"

section \<open>Properties of the shim\<close>

subsection \<open>Basic facts\<close>

lemmas accessor_defs =
  hdf5_get_f_acc_rdonly_def hdf5_get_f_acc_rdwr_def hdf5_get_f_acc_trunc_def
  hdf5_get_f_acc_excl_def hdf5_get_s_scalar_def hdf5_get_s_simple_def hdf5_get_s_null_def
  hdf5_get_p_default_def hdf5_get_s_all_def hdf5_get_native_int8_def
  hdf5_get_native_int16_def hdf5_get_native_int32_def hdf5_get_native_int64_def
  hdf5_get_native_uint8_def hdf5_get_native_uint16_def hdf5_get_native_uint32_def
  hdf5_get_native_uint64_def hdf5_get_native_float_def hdf5_get_native_double_def
  hdf5_get_native_char_def hdf5_get_c_s1_def

lemma cast_same: "ctype_of v = T \<Longrightarrow> cast T v = v"
  by (cases v) auto

lemma ctype_of_cast: "ctype_of (cast T v) = T"
  by (cases T) simp_all

lemma shim_cases:
  assumes "a \<in> set shim"
  shows "a \<in> {hdf5_get_f_acc_rdonly, hdf5_get_f_acc_rdwr, hdf5_get_f_acc_trunc,
     hdf5_get_f_acc_excl, hdf5_get_s_scalar, hdf5_get_s_simple, hdf5_get_s_null,
     hdf5_get_p_default, hdf5_get_s_all,
     hdf5_get_native_int8, hdf5_get_native_int16, hdf5_get_native_int32, hdf5_get_native_int64,
     hdf5_get_native_uint8, hdf5_get_native_uint16, hdf5_get_native_uint32,
     hdf5_get_native_uint64, hdf5_get_native_float, hdf5_get_native_double,
     hdf5_get_native_char, hdf5_get_c_s1}"
  using assms by (simp add: shim_def)

lemma shim_shape:
  assumes "a \<in> set shim"
  shows "\<exists>m. acc_body a = [Return m] \<and> acc_params a = []"
  using shim_cases [OF assms] by (auto simp: accessor_defs)

lemma call_single:
  assumes "acc_body a = [Return m]"
  shows "call lib a s = Some (cast (acc_ret a) (fst (lib m s)), snd (lib m s))"
  using assms by (simp add: call_def split: prod.split)

lemma shim_call:
  assumes "a \<in> set shim" and "acc_wraps a = Some m"
  shows "call lib a s = Some (cast (acc_ret a) (fst (lib m s)), snd (lib m s))"
proof -
  from shim_shape [OF assms(1)] obtain m' where b: "acc_body a = [Return m']" by blast
  with assms(2) have "m' = m" by (simp add: acc_wraps_def)
  with b show ?thesis by (simp add: call_single)
qed

lemma shim_types:
  assumes "a \<in> set shim" and "acc_wraps a = Some m"
  shows "acc_ret a = native_type m"
    and "acc_ret a = (case acc_category a of File_access_flags \<Rightarrow> C_unsigned_int
           | Dataspace_types \<Rightarrow> C_H5S_class_t | _ \<Rightarrow> C_hid_t)"
  using shim_cases [OF assms(1)] assms(2) by (auto simp: accessor_defs acc_wraps_def)

lemma shim_call_typed:
  assumes "a \<in> set shim" and "acc_body a = [Return m]"
    and "ctype_of (fst (lib m s)) = native_type m"
  shows "call lib a s = Some (lib m s)"
proof -
  from assms(2) have w: "acc_wraps a = Some m" by (simp add: acc_wraps_def)
  from shim_types(1) [OF assms(1) w] assms(3) have "cast (acc_ret a) (fst (lib m s)) = fst (lib m s)"
    by (simp add: cast_same)
  with assms(2) show ?thesis by (simp add: call_single)
qed

lemma H5_example_stable:
  "fst (H5_example m (snd (H5_example m' s))) = fst (H5_example m s)"
  by (cases m; cases m') (simp_all add: H5open_def)

subsection \<open>What a call returns\<close>

text \<open>
  C1. Every accessor of the shim returns the value of one macro, bit for bit: its body
  returns a macro \<open>m\<close>, and whenever the library gives \<open>m\<close> a value of its native
  type, the call yields exactly what the expansion of \<open>m\<close> yields, the same value and
  the same state.
\<close>

theorem accessor_returns_macro_value:
  assumes "a \<in> set shim"
  shows "\<exists>m. acc_body a = [Return m]
           \<and> (ctype_of (fst (lib m s)) = native_type m \<longrightarrow> call lib a s = Some (lib m s))"
proof -
  from shim_shape [OF assms] obtain m where b: "acc_body a = [Return m]" by blast
  have "ctype_of (fst (lib m s)) = native_type m \<longrightarrow> call lib a s = Some (lib m s)"
    using shim_call_typed [OF assms b, where lib = lib and s = s] by blast
  with b show ?thesis by blast
qed

theorem accessor_returns_macro_value_witness:
  "hdf5_get_native_double \<in> set shim
   \<and> acc_body hdf5_get_native_double = [Return H5T_NATIVE_DOUBLE]
   \<and> ctype_of (fst (H5_example H5T_NATIVE_DOUBLE h5_fresh)) = native_type H5T_NATIVE_DOUBLE
   \<and> call H5_example hdf5_get_native_double h5_fresh
       = Some (Hid 0x0300000000000029, H5open h5_fresh)"
proof -
  have h1: "hdf5_get_native_double \<in> set shim" by (simp add: shim_def)
  have h2: "acc_body hdf5_get_native_double = [Return H5T_NATIVE_DOUBLE]"
    by (simp add: hdf5_get_native_double_def)
  have h3: "ctype_of (fst (H5_example H5T_NATIVE_DOUBLE h5_fresh))
      = native_type H5T_NATIVE_DOUBLE" by simp
  have h4: "H5_example H5T_NATIVE_DOUBLE h5_fresh = (Hid 0x0300000000000029, H5open h5_fresh)"
    by (simp add: H5open_def h5_fresh_def)
  from accessor_returns_macro_value [OF h1, where lib = H5_example and s = h5_fresh]
  obtain m where b: "acc_body hdf5_get_native_double = [Return m]"
    and c: "ctype_of (fst (H5_example m h5_fresh)) = native_type m
      \<longrightarrow> call H5_example hdf5_get_native_double h5_fresh = Some (H5_example m h5_fresh)"
    by blast
  from b h2 have "m = H5T_NATIVE_DOUBLE" by simp
  with c h3 h4 have "call H5_example hdf5_get_native_double h5_fresh
      = Some (Hid 0x0300000000000029, H5open h5_fresh)" by simp
  with h1 h2 h3 show ?thesis by blast
qed

subsection \<open>Effects on the process state\<close>

text \<open>
  C2, as the spec states it (no accessor call changes any process-global state), fails:
  in a process where the HDF5 library has not been initialized, the call of
  \<^verbatim>\<open>hdf5_get_native_int8\<close> leaves a different state, because the macro it
  returns initializes the library.
\<close>

theorem native_accessor_initializes_library:
  "map_option snd (call H5_example hdf5_get_native_int8 h5_fresh) \<noteq> Some h5_fresh"
  by (simp add: call_def hdf5_get_native_int8_def h5_fresh_def H5open_def)

text \<open>
  C2, amended. An accessor has no effect of its own: the state after a call is exactly
  the state that one evaluation of the wrapped macro's expansion leaves. So a call
  changes nothing where the macro is a plain constant, and does what the macro's runtime
  initialization does where it has one.
\<close>

theorem accessor_effect_is_macro_effect:
  assumes "a \<in> set shim" and "acc_wraps a = Some m"
  shows "map_option snd (call lib a s) = Some (snd (lib m s))"
  using assms by (simp add: shim_call)

theorem accessor_effect_is_macro_effect_witness:
  "hdf5_get_native_double \<in> set shim \<and> acc_wraps hdf5_get_native_double = Some H5T_NATIVE_DOUBLE
   \<and> map_option snd (call H5_example hdf5_get_native_double (H5open h5_fresh))
       = Some (snd (H5_example H5T_NATIVE_DOUBLE (H5open h5_fresh)))
   \<and> snd (H5_example H5T_NATIVE_DOUBLE (H5open h5_fresh)) = H5open h5_fresh"
proof -
  have h1: "hdf5_get_native_double \<in> set shim" by (simp add: shim_def)
  have h2: "acc_wraps hdf5_get_native_double = Some H5T_NATIVE_DOUBLE"
    by (simp add: acc_wraps_def hdf5_get_native_double_def)
  have h3: "snd (H5_example H5T_NATIVE_DOUBLE (H5open h5_fresh)) = H5open h5_fresh"
    by (simp add: H5open_def)
  from accessor_effect_is_macro_effect
    [OF h1 h2, where lib = H5_example and s = "H5open h5_fresh"] h1 h2 h3
  show ?thesis by simp
qed

subsection \<open>Failure\<close>

text \<open>
  C3, as the spec states it (no error value can come out of a call), fails: in a process
  where the initialization of the library fails, the call of
  \<^verbatim>\<open>hdf5_get_native_int8\<close> returns the invalid identifier.
\<close>

theorem accessor_returns_invalid_hid:
  "call H5_init_fails hdf5_get_native_int8 h5_fresh = Some (H5I_INVALID_HID, h5_fresh)"
  by (simp add: call_def hdf5_get_native_int8_def h5_fresh_def H5I_INVALID_HID_def)

text \<open>
  C3, amended. No accessor has a failure of its own: each takes no argument, its body
  is one \<^verbatim>\<open>return\<close> of a macro, and a call always returns a value of the
  declared return type, in every library and state. That value is the invalid
  identifier exactly when the wrapped macro evaluates to it (as it does when the
  runtime initialization inside the macro fails); the accessor passes it on and signals
  nothing.
\<close>

theorem accessor_no_failure_of_its_own:
  assumes "a \<in> set shim"
  shows "acc_params a = []
       \<and> (\<exists>m v s'. acc_body a = [Return m] \<and> call lib a s = Some (v, s')
             \<and> ctype_of v = acc_ret a
             \<and> (ctype_of (fst (lib m s)) = native_type m
                  \<longrightarrow> (v = H5I_INVALID_HID) = (fst (lib m s) = H5I_INVALID_HID)))"
proof -
  from shim_shape [OF assms] obtain m where
    b: "acc_body a = [Return m]" and p: "acc_params a = []" by blast
  let ?v = "cast (acc_ret a) (fst (lib m s))"
  have c: "call lib a s = Some (?v, snd (lib m s))" by (rule call_single [OF b])
  have t: "ctype_of ?v = acc_ret a" by (rule ctype_of_cast)
  have e: "ctype_of (fst (lib m s)) = native_type m
      \<longrightarrow> (?v = H5I_INVALID_HID) = (fst (lib m s) = H5I_INVALID_HID)"
  proof
    assume "ctype_of (fst (lib m s)) = native_type m"
    from shim_call_typed [where lib = lib and s = s, OF assms b this] c have "?v = fst (lib m s)"
      by (simp add: prod_eq_iff)
    then show "(?v = H5I_INVALID_HID) = (fst (lib m s) = H5I_INVALID_HID)" by simp
  qed
  from p b c t e show ?thesis by blast
qed

theorem accessor_no_failure_of_its_own_witness:
  "hdf5_get_s_null \<in> set shim \<and> acc_params hdf5_get_s_null = []
   \<and> acc_body hdf5_get_s_null = [Return H5S_NULL]
   \<and> ctype_of (fst (H5_example H5S_NULL h5_fresh)) = native_type H5S_NULL
   \<and> fst (H5_example H5S_NULL h5_fresh) \<noteq> H5I_INVALID_HID
   \<and> (\<exists>v s'. call H5_example hdf5_get_s_null h5_fresh = Some (v, s')
         \<and> ctype_of v = acc_ret hdf5_get_s_null \<and> v \<noteq> H5I_INVALID_HID)"
proof -
  have h1: "hdf5_get_s_null \<in> set shim" by (simp add: shim_def)
  have h2: "acc_body hdf5_get_s_null = [Return H5S_NULL]" by (simp add: hdf5_get_s_null_def)
  have h3: "ctype_of (fst (H5_example H5S_NULL h5_fresh)) = native_type H5S_NULL" by simp
  have h4: "fst (H5_example H5S_NULL h5_fresh) \<noteq> H5I_INVALID_HID"
    by (simp add: H5I_INVALID_HID_def)
  from accessor_no_failure_of_its_own [OF h1, where lib = H5_example and s = h5_fresh]
  obtain m v s' where p: "acc_params hdf5_get_s_null = []"
    and b: "acc_body hdf5_get_s_null = [Return m]"
    and c: "call H5_example hdf5_get_s_null h5_fresh = Some (v, s')"
    and t: "ctype_of v = acc_ret hdf5_get_s_null"
    and e: "ctype_of (fst (H5_example m h5_fresh)) = native_type m
      \<longrightarrow> (v = H5I_INVALID_HID) = (fst (H5_example m h5_fresh) = H5I_INVALID_HID)"
    by blast
  from b h2 have "m = H5S_NULL" by simp
  with e h3 h4 have "v \<noteq> H5I_INVALID_HID" by blast
  with h1 h2 h3 h4 p c t show ?thesis by blast
qed

subsection \<open>Determinism\<close>

lemma call_shim_state:
  assumes "b \<in> set shim"
  shows "\<exists>m v. call lib b s = Some (v, snd (lib m s))"
proof -
  from shim_shape [OF assms] obtain m where "acc_body b = [Return m]" by blast
  then show ?thesis by (auto simp: call_single)
qed

lemma run_shim_keeps_value:
  assumes stable: "\<And>m m' s. fst (lib m (snd (lib m' s))) = fst (lib m s)"
  shows "set bs \<subseteq> set shim \<Longrightarrow> \<exists>s'. run lib bs s = Some s' \<and> fst (lib m s') = fst (lib m s)"
proof (induction bs arbitrary: s)
  case Nil
  then show ?case by simp
next
  case (Cons b bs)
  from Cons.prems have "b \<in> set shim" and rest: "set bs \<subseteq> set shim" by simp_all
  from call_shim_state [OF \<open>b \<in> set shim\<close>, where lib = lib and s = s] obtain m' v where
    c: "call lib b s = Some (v, snd (lib m' s))" by blast
  from Cons.IH [OF rest, where s = "snd (lib m' s)"] obtain s' where
    r: "run lib bs (snd (lib m' s)) = Some s'"
    and k: "fst (lib m s') = fst (lib m (snd (lib m' s)))" by blast
  from k stable have "fst (lib m s') = fst (lib m s)" by simp
  with c r show ?case by simp
qed

text \<open>
  C4. An accessor is deterministic within a process. Against a library in which the
  evaluation of a macro does not change the value of any macro (the identifiers are
  fixed once set), a call of an accessor returns a value \<open>v\<close>, and after any further
  calls of accessors of the shim the same accessor returns the same \<open>v\<close> again.
\<close>

theorem accessor_deterministic:
  assumes "a \<in> set shim" and "set bs \<subseteq> set shim"
    and "\<And>m m' s. fst (lib m (snd (lib m' s))) = fst (lib m s)"
  shows "\<exists>v s1 s2 s3. call lib a s = Some (v, s1) \<and> run lib bs s1 = Some s2
           \<and> call lib a s2 = Some (v, s3)"
proof -
  from shim_shape [OF assms(1)] obtain m where b: "acc_body a = [Return m]" by blast
  let ?s1 = "snd (lib m s)"
  from run_shim_keeps_value [where lib = lib and bs = bs and s = "?s1" and m = m, OF assms(3) assms(2)] obtain s2 where
    r: "run lib bs ?s1 = Some s2" and k: "fst (lib m s2) = fst (lib m ?s1)" by blast
  from k assms(3) have "fst (lib m s2) = fst (lib m s)" by simp
  then have "call lib a s2 = Some (cast (acc_ret a) (fst (lib m s)), snd (lib m s2))"
    by (simp add: call_single [OF b])
  moreover have "call lib a s = Some (cast (acc_ret a) (fst (lib m s)), ?s1)"
    by (rule call_single [OF b])
  ultimately show ?thesis using r by blast
qed

theorem accessor_deterministic_witness:
  "hdf5_get_native_int32 \<in> set shim
   \<and> set [hdf5_get_native_float, hdf5_get_f_acc_rdwr] \<subseteq> set shim
   \<and> fst (H5_example H5T_NATIVE_INT32 (snd (H5_example H5T_NATIVE_FLOAT h5_fresh)))
       = fst (H5_example H5T_NATIVE_INT32 h5_fresh)
   \<and> (\<exists>v s1 s2 s3. call H5_example hdf5_get_native_int32 h5_fresh = Some (v, s1)
         \<and> run H5_example [hdf5_get_native_float, hdf5_get_f_acc_rdwr] s1 = Some s2
         \<and> call H5_example hdf5_get_native_int32 s2 = Some (v, s3))"
proof -
  have h1: "hdf5_get_native_int32 \<in> set shim" by (simp add: shim_def)
  have h2: "set [hdf5_get_native_float, hdf5_get_f_acc_rdwr] \<subseteq> set shim"
    by (simp add: shim_def)
  have h3: "fst (H5_example H5T_NATIVE_INT32 (snd (H5_example H5T_NATIVE_FLOAT h5_fresh)))
      = fst (H5_example H5T_NATIVE_INT32 h5_fresh)" by (rule H5_example_stable)
  from accessor_deterministic [where lib = H5_example and s = h5_fresh, OF h1 h2 H5_example_stable]
    h1 h2 h3
  show ?thesis by blast
qed

subsection \<open>Return types\<close>

text \<open>
  C5. The declared return type of every accessor is the native type of the macro it
  wraps: \<^verbatim>\<open>unsigned int\<close> under the file-access flags, \<^verbatim>\<open>H5S_class_t\<close>
  under the dataspace types, \<^verbatim>\<open>hid_t\<close> under the four other headings. The
  conversion that \<^verbatim>\<open>return\<close> applies therefore neither truncates nor widens:
  it leaves every value of the macro's native type as it is.
\<close>

theorem return_type_is_native_type:
  assumes "a \<in> set shim" and "acc_wraps a = Some m"
  shows "acc_ret a = native_type m
       \<and> acc_ret a = (case acc_category a of File_access_flags \<Rightarrow> C_unsigned_int
           | Dataspace_types \<Rightarrow> C_H5S_class_t | _ \<Rightarrow> C_hid_t)
       \<and> (ctype_of v = native_type m \<longrightarrow> cast (acc_ret a) v = v)"
proof (intro conjI impI)
  show t: "acc_ret a = native_type m" by (rule shim_types(1) [OF assms])
  show "acc_ret a = (case acc_category a of File_access_flags \<Rightarrow> C_unsigned_int
           | Dataspace_types \<Rightarrow> C_H5S_class_t | _ \<Rightarrow> C_hid_t)"
    by (rule shim_types(2) [OF assms])
  assume "ctype_of v = native_type m"
  with t show "cast (acc_ret a) v = v" by (simp add: cast_same)
qed

theorem return_type_is_native_type_witness:
  "hdf5_get_f_acc_excl \<in> set shim
   \<and> acc_wraps hdf5_get_f_acc_excl = Some H5F_ACC_EXCL
   \<and> acc_category hdf5_get_f_acc_excl = File_access_flags
   \<and> acc_ret hdf5_get_f_acc_excl = native_type H5F_ACC_EXCL
   \<and> acc_ret hdf5_get_f_acc_excl = C_unsigned_int
   \<and> ctype_of (UInt 4) = native_type H5F_ACC_EXCL
   \<and> cast (acc_ret hdf5_get_f_acc_excl) (UInt 4) = UInt 4"
proof -
  have h1: "hdf5_get_f_acc_excl \<in> set shim" by (simp add: shim_def)
  have h2: "acc_wraps hdf5_get_f_acc_excl = Some H5F_ACC_EXCL"
    by (simp add: acc_wraps_def hdf5_get_f_acc_excl_def)
  have h3: "acc_category hdf5_get_f_acc_excl = File_access_flags"
    by (simp add: hdf5_get_f_acc_excl_def)
  have h4: "ctype_of (UInt 4) = native_type H5F_ACC_EXCL" by simp
  from return_type_is_native_type [OF h1 h2, where v = "UInt 4"] h1 h2 h3 h4
  show ?thesis by simp
qed

subsection \<open>Naming\<close>

text \<open>
  C6, as the spec states it (every accessor is named \<^verbatim>\<open>get_<category>_<constant>\<close>),
  fails: the name \<^verbatim>\<open>hdf5_get_f_acc_rdonly\<close> does not begin with \<^verbatim>\<open>get_\<close>.
\<close>

theorem spec_naming_convention_fails:
  "\<not> spec_naming_convention (acc_name hdf5_get_f_acc_rdonly)"
  by (simp add: spec_naming_convention_def get_category_constant_def hdf5_get_f_acc_rdonly_def)

lemma shim_names_all:
  "list_all (\<lambda>a. get_category_constant ''hdf5_'' (acc_name a)
      \<and> map_option (\<lambda>m. ''hdf5_get_'' @ map to_lower (constant_part (acc_category a) m))
            (acc_wraps a) = Some (acc_name a)) shim"
  by code_simp

text \<open>
  C6, amended. Every accessor is named \<^verbatim>\<open>hdf5_get_<category>_<constant>\<close>: the
  prefix \<^verbatim>\<open>hdf5_get_\<close> followed by the identifier of the wrapped macro in lower
  case, without its leading \<^verbatim>\<open>H5\<close> (without \<^verbatim>\<open>H5T_\<close> for the datatype
  macros).
\<close>

theorem accessor_naming:
  assumes "a \<in> set shim"
  shows "get_category_constant ''hdf5_'' (acc_name a)
      \<and> map_option (\<lambda>m. ''hdf5_get_'' @ map to_lower (constant_part (acc_category a) m))
            (acc_wraps a) = Some (acc_name a)"
  using shim_names_all assms unfolding list_all_iff by blast

theorem accessor_naming_witness:
  "hdf5_get_native_double \<in> set shim
   \<and> get_category_constant ''hdf5_'' ''hdf5_get_native_double''
   \<and> ''hdf5_get_'' @ map to_lower (constant_part Native_type_identifiers H5T_NATIVE_DOUBLE)
       = ''hdf5_get_native_double''"
proof -
  have h1: "hdf5_get_native_double \<in> set shim" by (simp add: shim_def)
  from accessor_naming [OF h1] h1 show ?thesis
    by (simp add: hdf5_get_native_double_def acc_wraps_def)
qed

subsection \<open>Inventory\<close>

text \<open>
  C7. The shim consists of 21 accessors (the spec's "about 25"), all of the one shape,
  and they cover the six categories as listed: the four file-access flags, the three
  dataspace classes, the default property list, the select-all marker, the eleven native
  numeric types (signed and unsigned 8, 16, 32 and 64 bit integers, float, double, char)
  and the C string type.
\<close>

theorem shim_inventory:
  "length shim = 21
   \<and> wrapped_in File_access_flags = [H5F_ACC_RDONLY, H5F_ACC_RDWR, H5F_ACC_TRUNC, H5F_ACC_EXCL]
   \<and> wrapped_in Dataspace_types = [H5S_SCALAR, H5S_SIMPLE, H5S_NULL]
   \<and> wrapped_in Property_list_identifiers = [H5P_DEFAULT]
   \<and> wrapped_in Dataspace_selection = [H5S_ALL]
   \<and> wrapped_in Native_type_identifiers =
       [H5T_NATIVE_INT8, H5T_NATIVE_INT16, H5T_NATIVE_INT32, H5T_NATIVE_INT64,
        H5T_NATIVE_UINT8, H5T_NATIVE_UINT16, H5T_NATIVE_UINT32, H5T_NATIVE_UINT64,
        H5T_NATIVE_FLOAT, H5T_NATIVE_DOUBLE, H5T_NATIVE_CHAR]
   \<and> wrapped_in String_type_helper = [H5T_C_S1]"
  by (simp add: shim_def wrapped_in_def accessor_defs)

text \<open>
  C8. Accessors and macros correspond one to one: the body of each accessor returns
  exactly one macro, and no two accessors of the file return the same macro (nor two
  macros of the same identifier).
\<close>

theorem one_macro_per_accessor:
  "map acc_body shim = map (\<lambda>m. [Return m])
      [H5F_ACC_RDONLY, H5F_ACC_RDWR, H5F_ACC_TRUNC, H5F_ACC_EXCL,
       H5S_SCALAR, H5S_SIMPLE, H5S_NULL, H5P_DEFAULT, H5S_ALL,
       H5T_NATIVE_INT8, H5T_NATIVE_INT16, H5T_NATIVE_INT32, H5T_NATIVE_INT64,
       H5T_NATIVE_UINT8, H5T_NATIVE_UINT16, H5T_NATIVE_UINT32, H5T_NATIVE_UINT64,
       H5T_NATIVE_FLOAT, H5T_NATIVE_DOUBLE, H5T_NATIVE_CHAR, H5T_C_S1]
   \<and> distinct (map acc_wraps shim)
   \<and> distinct (map (\<lambda>a. map macro_name (returned (acc_body a))) shim)"
  by (simp add: shim_def accessor_defs acc_wraps_def)

subsection \<open>Termination\<close>

lemma shim_no_calls_all:
  "list_all (\<lambda>a. list_all (\<lambda>m. macro_name m \<notin> set (map acc_name shim))
      (returned (acc_body a))) shim"
  by code_simp

text \<open>
  C10. Every accessor returns on every call: its body is the single statement
  \<^verbatim>\<open>return M;\<close>, the identifier \<open>M\<close> is not the name of any function of the
  shim (so no accessor calls itself or another one), and the call ends with its result
  after the one evaluation of \<open>M\<close>.
\<close>

theorem accessor_terminates:
  assumes "a \<in> set shim"
  shows "\<exists>m. acc_body a = [Return m]
           \<and> macro_name m \<notin> set (map acc_name shim)
           \<and> call lib a s = Some (cast (acc_ret a) (fst (lib m s)), snd (lib m s))"
proof -
  from shim_shape [OF assms] obtain m where b: "acc_body a = [Return m]" by blast
  from shim_no_calls_all assms b have "macro_name m \<notin> set (map acc_name shim)"
    unfolding list_all_iff by fastforce
  with b show ?thesis by (simp add: call_single)
qed

theorem accessor_terminates_witness:
  "hdf5_get_c_s1 \<in> set shim \<and> acc_body hdf5_get_c_s1 = [Return H5T_C_S1]
   \<and> macro_name H5T_C_S1 \<notin> set (map acc_name shim)
   \<and> (\<exists>r. call H5_example hdf5_get_c_s1 h5_fresh = Some r)"
proof -
  have h1: "hdf5_get_c_s1 \<in> set shim" by (simp add: shim_def)
  have h2: "acc_body hdf5_get_c_s1 = [Return H5T_C_S1]" by (simp add: hdf5_get_c_s1_def)
  from accessor_terminates [OF h1, where lib = H5_example and s = h5_fresh] h1 h2
  show ?thesis by auto
qed

end
